theory Spec2Isabelle
  imports Main "HOL-Library.Sublist"
begin

section \<open>Python values\<close>

text \<open>
  A Python \<open>str\<close> is a sequence of Unicode code points, so it is modelled as a list of
  code points. \<open>ascii\<close> turns an ASCII literal into that form; the non-ASCII literals
  of \<open>app.py\<close> are written out code point by code point below.
\<close>

type_synonym pystr = "nat list"

definition ascii :: "string \<Rightarrow> pystr" where
  "ascii cs = map of_char cs"

text \<open>
  The values that \<open>json.load\<close>, \<open>response.json()\<close> and the text-generation pipeline
  hand to the program: \<open>None\<close>, booleans, integers, strings, lists and dictionaries
  with string keys (an association list in insertion order, keys distinct as in a
  Python dict). Fractional numbers are left out of the model. \<open>PyObject\<close> is any
  other object a caller may pass, of a class with no special methods, such as
  \<open>object()\<close>: it is true, it has no length, no items and no \<open>append\<close>, and
  \<open>json.dump\<close> cannot serialise it.
\<close>

datatype json =
    JNull
  | JBool bool
  | JInt int
  | JStr pystr
  | JList "json list"
  | JObj "(pystr \<times> json) list"
  | PyObject nat

text \<open>
  The exceptions of the program. \<open>LibraryError\<close> stands for whatever else a call into
  \<open>requests\<close>, \<open>PIL\<close>, \<open>transformers\<close> or the operating system raises; the
  program catches none of them but \<open>JSONDecodeError\<close>.
\<close>

datatype py_error =
    JSONDecodeError
  | UnicodeDecodeError
  | RecursionError
  | FileNotFoundError
  | AttributeError
  | KeyError
  | IndexError
  | TypeError
  | LibraryError pystr

text \<open>Truth value of a Python value, as \<open>if x\<close> and \<open>not x\<close> test it.\<close>

fun truthy :: "json \<Rightarrow> bool" where
  "truthy JNull = False"
| "truthy (JBool b) = b"
| "truthy (JInt i) = (i \<noteq> 0)"
| "truthy (JStr s) = (s \<noteq> [])"
| "truthy (JList xs) = (xs \<noteq> [])"
| "truthy (JObj kvs) = (kvs \<noteq> [])"
| "truthy (PyObject n) = True"

text \<open>\<open>key in v\<close> for a string key.\<close>

fun py_in :: "pystr \<Rightarrow> json \<Rightarrow> py_error + bool" where
  "py_in k (JObj kvs) = Inr (k \<in> set (map fst kvs))"
| "py_in k (JList xs) = Inr (JStr k \<in> set xs)"
| "py_in k (JStr s) = Inr (sublist k s)"
| "py_in k JNull = Inl TypeError"
| "py_in k (JBool b) = Inl TypeError"
| "py_in k (JInt i) = Inl TypeError"
| "py_in k (PyObject n) = Inl TypeError"

text \<open>\<open>v[key]\<close> for a string key.\<close>

fun getitem_str :: "json \<Rightarrow> pystr \<Rightarrow> py_error + json" where
  "getitem_str (JObj kvs) k = (case map_of kvs k of None \<Rightarrow> Inl KeyError | Some v \<Rightarrow> Inr v)"
| "getitem_str (JList xs) k = Inl TypeError"
| "getitem_str (JStr s) k = Inl TypeError"
| "getitem_str JNull k = Inl TypeError"
| "getitem_str (JBool b) k = Inl TypeError"
| "getitem_str (JInt i) k = Inl TypeError"
| "getitem_str (PyObject n) k = Inl TypeError"

text \<open>\<open>v[0]\<close>.\<close>

fun getitem_0 :: "json \<Rightarrow> py_error + json" where
  "getitem_0 (JList []) = Inl IndexError"
| "getitem_0 (JList (x # xs)) = Inr x"
| "getitem_0 (JStr []) = Inl IndexError"
| "getitem_0 (JStr (c # cs)) = Inr (JStr [c])"
| "getitem_0 (JObj kvs) = Inl KeyError"
| "getitem_0 JNull = Inl TypeError"
| "getitem_0 (JBool b) = Inl TypeError"
| "getitem_0 (JInt i) = Inl TypeError"
| "getitem_0 (PyObject n) = Inl TypeError"

text \<open>\<open>len(v)\<close>.\<close>

fun py_len :: "json \<Rightarrow> py_error + nat" where
  "py_len (JList xs) = Inr (length xs)"
| "py_len (JStr s) = Inr (length s)"
| "py_len (JObj kvs) = Inr (length kvs)"
| "py_len JNull = Inl TypeError"
| "py_len (JBool b) = Inl TypeError"
| "py_len (JInt i) = Inl TypeError"
| "py_len (PyObject n) = Inl TypeError"

text \<open>\<open>v.append(x)\<close>: only a list has the method.\<close>

fun py_append :: "json \<Rightarrow> json \<Rightarrow> py_error + json" where
  "py_append (JList xs) x = Inr (JList (xs @ [x]))"
| "py_append JNull x = Inl AttributeError"
| "py_append (JBool b) x = Inl AttributeError"
| "py_append (JInt i) x = Inl AttributeError"
| "py_append (JStr s) x = Inl AttributeError"
| "py_append (JObj kvs) x = Inl AttributeError"
| "py_append (PyObject n) x = Inl AttributeError"

text \<open>The keys of a dictionary, in insertion order (nothing for another value).\<close>

fun dict_keys :: "json \<Rightarrow> pystr list" where
  "dict_keys (JObj kvs) = map fst kvs"
| "dict_keys v = []"

text \<open>
  Whether \<open>json.dump\<close> can write the value: it raises \<open>TypeError\<close> when it reaches an
  object that is none of the JSON kinds.
\<close>

fun serializable :: "json \<Rightarrow> bool" where
  "serializable JNull = True"
| "serializable (JBool b) = True"
| "serializable (JInt i) = True"
| "serializable (JStr s) = True"
| "serializable (JList xs) = list_all serializable xs"
| "serializable (JObj kvs) = list_all serializable (map snd kvs)"
| "serializable (PyObject n) = False"

section \<open>History store\<close>

text \<open>
  The disk, as far as the program touches it. \<open>files\<close> holds the paths that exist; a
  file is known by what opening it and \<open>json.load\<close> make of it: the value its text
  parses to, or the exception raised (\<open>JSONDecodeError\<close> for text that is not JSON,
  \<open>UnicodeDecodeError\<close> for bytes that are not text, \<open>RecursionError\<close> for text
  nested too deep, and so on). \<open>open_for_writing\<close> gives the exception that
  \<open>open(filename, "w")\<close> raises for a path, if it raises one: the program creates the
  directory \<open>history/\<close> and nothing below it, so a path that lies in a directory that
  does not exist cannot be opened (\<open>FileNotFoundError\<close>). What \<open>json.dump\<close> writes
  is the file that parses to the value dumped.
\<close>

datatype history_file = Json json | Raises py_error

record disk =
  files :: "pystr \<rightharpoonup> history_file"
  open_for_writing :: "pystr \<Rightarrow> py_error option"

definition json_load :: "history_file \<Rightarrow> py_error + json" where
  "json_load f = (case f of Json v \<Rightarrow> Inr v | Raises e \<Rightarrow> Inl e)"

definition history_filename :: "pystr \<Rightarrow> pystr" where
  "history_filename user_id = ascii ''history/'' @ user_id @ ascii ''_history.json''"

text \<open>
  The dictionary of lines 86-94. \<open>now\<close> is the clock reading
  \<open>datetime.now().strftime("%Y-%m-%d %H:%M:%S")\<close>; \<open>clothing_type\<close> is \<open>None\<close> when
  the caller leaves the argument out, and Python's default \<open>None\<close> is stored then.
\<close>

definition history_entry ::
  "pystr \<Rightarrow> pystr \<Rightarrow> pystr \<Rightarrow> pystr \<Rightarrow> pystr \<Rightarrow> json \<Rightarrow> json option \<Rightarrow> json" where
  "history_entry now user_id occasion weather style recommendation clothing_type =
     JObj [(ascii ''user_id'', JStr user_id),
           (ascii ''occasion'', JStr occasion),
           (ascii ''weather'', JStr weather),
           (ascii ''style'', JStr style),
           (ascii ''recommendation'', recommendation),
           (ascii ''clothing_type'', (case clothing_type of None \<Rightarrow> JNull | Some c \<Rightarrow> c)),
           (ascii ''timestamp'', JStr now)]"

text \<open>
  \<open>save_history\<close> (lines 84-115): read the file if it exists (a \<open>JSONDecodeError\<close>
  gives the empty list, any other exception propagates), append, open the file for
  writing, dump the whole list, return \<open>True\<close>. An exception before the file is open
  for writing leaves the disk as it was. Opening truncates the file, and
  \<open>json.dump\<close> writes as it goes, so when it raises on the new entry the file is left
  with the beginning of a JSON text, which \<open>json.load\<close> rejects. What \<open>json.load\<close>
  returned can be dumped again, so only the new entry can make \<open>json.dump\<close> raise.
\<close>

definition save_history ::
  "pystr \<Rightarrow> disk \<Rightarrow> pystr \<Rightarrow> pystr \<Rightarrow> pystr \<Rightarrow> pystr \<Rightarrow> json \<Rightarrow> json option
     \<Rightarrow> (py_error + bool) \<times> disk" where
  "save_history now d user_id occasion weather style recommendation clothing_type =
     (let entry = history_entry now user_id occasion weather style recommendation clothing_type;
          filename = history_filename user_id;
          loaded = (case files d filename of
                      Some f \<Rightarrow> (case json_load f of
                                   Inl JSONDecodeError \<Rightarrow> Inr (JList [])
                                 | Inl e \<Rightarrow> Inl e
                                 | Inr v \<Rightarrow> Inr v)
                    | None \<Rightarrow> Inr (JList []))
      in case loaded of
           Inl e \<Rightarrow> (Inl e, d)
         | Inr data \<Rightarrow>
             (case py_append data entry of
                Inl e \<Rightarrow> (Inl e, d)
              | Inr data' \<Rightarrow>
                  (case open_for_writing d filename of
                     Some e \<Rightarrow> (Inl e, d)
                   | None \<Rightarrow>
                       if serializable entry
                       then (Inr True, d\<lparr>files := (files d)(filename \<mapsto> Json data')\<rparr>)
                       else (Inl TypeError,
                             d\<lparr>files := (files d)(filename \<mapsto> Raises JSONDecodeError)\<rparr>))))"

text \<open>\<open>load_history\<close> (lines 118-126).\<close>

definition load_history :: "disk \<Rightarrow> pystr \<Rightarrow> py_error + json" where
  "load_history d user_id =
     (let filename = history_filename user_id
      in case files d filename of
           Some f \<Rightarrow> (case json_load f of
                        Inl JSONDecodeError \<Rightarrow> Inr (JList [])
                      | Inl e \<Rightarrow> Inl e
                      | Inr v \<Rightarrow> Inr v)
         | None \<Rightarrow> Inr (JList []))"

section \<open>The outside world and the effects of a request\<close>

text \<open>
  A response of \<open>requests\<close>: \<open>response.status_code\<close>, \<open>response.text\<close> and the
  outcome of \<open>response.json()\<close>, which raises when the body is not JSON.
\<close>

record http_response =
  status_code :: int
  body_text :: pystr
  body_json :: "py_error + json"

text \<open>
  What the program does not compute itself is a parameter: the two secrets, the answers
  of the network, the text-generation pipeline (loading it may raise, and so may
  calling it), the JPEG and base64 encoding of an image (\<open>image.save\<close> may raise),
  \<open>str()\<close> of a value that is not already a string, and the clock of the cache in
  seconds. The type of images is left open.
\<close>

record 'img world =
  API_KEY :: pystr
  SECRET_KEY :: pystr
  requests_get :: "pystr \<Rightarrow> py_error + http_response"
  requests_post ::
    "pystr \<Rightarrow> (pystr \<times> pystr) list \<Rightarrow> (pystr \<times> pystr) list \<Rightarrow> py_error + http_response"
  pipeline :: "py_error + (pystr \<Rightarrow> nat \<Rightarrow> nat \<Rightarrow> py_error + json)"
  jpeg_base64 :: "'img \<Rightarrow> py_error + pystr"
  py_str :: "json \<Rightarrow> pystr"
  clock :: nat

text \<open>
  The effects a reader of the claims can observe, in the order they happen: a GET with
  its URL, a POST with its URL, headers and form data, a message shown by \<open>st.error\<close>,
  and a call of the text-generation model with its prompt, \<open>max_length\<close> and
  \<open>num_return_sequences\<close>.
\<close>

datatype event =
    HttpGet pystr
  | HttpPost pystr "(pystr \<times> pystr) list" "(pystr \<times> pystr) list"
  | StError pystr
  | ModelCall pystr nat nat

fun is_st_element :: "event \<Rightarrow> bool" where
  "is_st_element (StError m) = True"
| "is_st_element e = False"

fun is_post :: "event \<Rightarrow> bool" where
  "is_post (HttpPost url headers data) = True"
| "is_post e = False"

fun is_model_call :: "event \<Rightarrow> bool" where
  "is_model_call (ModelCall prompt max_length n) = True"
| "is_model_call e = False"

text \<open>
  The state of the process: the one slot of \<open>st.cache_data\<close> for \<open>get_access_token\<close>
  (the cached return value, the \<open>st\<close> elements the call showed, which a cache hit
  shows again, and the time of the call), and the log of effects so far.
\<close>

record session =
  token_cache :: "(json \<times> event list \<times> nat) option"
  log :: "event list"

type_synonym 'a io = "session \<Rightarrow> (py_error + 'a) \<times> session"

definition ret :: "'a \<Rightarrow> 'a io" where
  "ret x s = (Inr x, s)"

definition bind :: "'a io \<Rightarrow> ('a \<Rightarrow> 'b io) \<Rightarrow> 'b io" where
  "bind m f s = (case m s of (Inl e, s') \<Rightarrow> (Inl e, s') | (Inr x, s') \<Rightarrow> f x s')"

text \<open>A pure step that may raise.\<close>

definition lift :: "py_error + 'a \<Rightarrow> 'a io" where
  "lift r s = (r, s)"

text \<open>An effectful call: the effect is logged whether the call returns or raises.\<close>

definition perform :: "event \<Rightarrow> py_error + 'a \<Rightarrow> 'a io" where
  "perform ev r s = (r, s\<lparr>log := log s @ [ev]\<rparr>)"

text \<open>Formatting a value inside an f-string: a string as it is, anything else by \<open>str()\<close>.\<close>

definition format_value :: "'img world \<Rightarrow> json \<Rightarrow> pystr" where
  "format_value w v = (case v of JStr s \<Rightarrow> s | _ \<Rightarrow> py_str w v)"

section \<open>Access token\<close>

definition token_url :: "pystr \<Rightarrow> pystr \<Rightarrow> pystr" where
  "token_url api_key secret_key =
     ascii ''https://aip.baidubce.com/oauth/2.0/token?grant_type=client_credentials&client_id=''
     @ api_key @ ascii ''&client_secret='' @ secret_key"

text \<open>
  The message of line 39 ("fetching the Baidu API token failed, please check the
  keys"), code point by code point.
\<close>

definition token_error_message :: pystr where
  "token_error_message =
     [0x83B7, 0x53D6, 0x767E, 0x5EA6, 0x41, 0x50, 0x49, 0x4EE4, 0x724C, 0x5931, 0x8D25,
      0xFF0C, 0x8BF7, 0x68C0, 0x67E5, 0x5BC6, 0x94A5]"

text \<open>
  The body of \<open>get_access_token\<close> (lines 34-40): the value returned or the exception
  raised, and the effects of the call.
\<close>

definition get_access_token_body :: "'img world \<Rightarrow> (py_error + json) \<times> event list" where
  "get_access_token_body w =
     (let url = token_url (API_KEY w) (SECRET_KEY w)
      in case requests_get w url of
           Inl e \<Rightarrow> (Inl e, [HttpGet url])
         | Inr response \<Rightarrow>
             if status_code response = 200
             then (case body_json response of
                     Inl e \<Rightarrow> (Inl e, [HttpGet url])
                   | Inr j \<Rightarrow> (getitem_str j (ascii ''access_token''), [HttpGet url]))
             else (Inr JNull, [HttpGet url, StError token_error_message]))"

definition ttl :: nat where
  "ttl = 21600"

text \<open>
  \<open>@st.cache_data(ttl=21600)\<close>: while the cached entry is younger than \<open>ttl\<close> seconds
  the call returns the cached value and shows the cached elements again, without
  running the body. Otherwise the body runs; what it returns is cached (also \<open>None\<close>),
  an exception is not.
\<close>

definition get_access_token :: "'img world \<Rightarrow> json io" where
  "get_access_token w s =
     (let run = (case get_access_token_body w of
                   (Inl e, evs) \<Rightarrow> (Inl e, s\<lparr>log := log s @ evs\<rparr>)
                 | (Inr v, evs) \<Rightarrow>
                     (Inr v, s\<lparr>token_cache := Some (v, filter is_st_element evs, clock w),
                               log := log s @ evs\<rparr>))
      in case token_cache s of
           None \<Rightarrow> run
         | Some (v, shown, stored) \<Rightarrow>
             if clock w < stored + ttl then (Inr v, s\<lparr>log := log s @ shown\<rparr>) else run)"

text \<open>No cached entry is in force: the next call of \<open>get_access_token\<close> runs the body.\<close>

definition cache_miss :: "'img world \<Rightarrow> session \<Rightarrow> bool" where
  "cache_miss w s =
     (case token_cache s of
        None \<Rightarrow> True
      | Some (v, shown, stored) \<Rightarrow> \<not> clock w < stored + ttl)"

section \<open>Image classification\<close>

text \<open>
  The strings of lines 53, 71 and 73, code point by code point: "authentication
  failed" (four characters), "no clothing type recognised" (eight characters), and
  "API call failed: " (the letters \<open>API\<close>, four characters, a colon and a space).
\<close>

definition auth_failed :: pystr where
  "auth_failed = [0x8BA4, 0x8BC1, 0x5931, 0x8D25]"

definition unrecognized :: pystr where
  "unrecognized = [0x672A, 0x8BC6, 0x522B, 0x51FA, 0x670D, 0x88C5, 0x7C7B, 0x578B]"

definition api_failed_prefix :: pystr where
  "api_failed_prefix = [0x41, 0x50, 0x49, 0x8C03, 0x7528, 0x5931, 0x8D25, 0x3A, 0x20]"

definition classify_url :: "pystr \<Rightarrow> pystr" where
  "classify_url access_token =
     ascii ''https://aip.baidubce.com/rest/2.0/image-classify/v2/advanced_general?access_token=''
     @ access_token"

definition classify_headers :: "(pystr \<times> pystr) list" where
  "classify_headers = [(ascii ''Content-Type'', ascii ''application/x-www-form-urlencoded'')]"

text \<open>
  Line 68, \<open>'result' in result and len(result['result']) > 0\<close>: the right operand is
  evaluated only when the left one is true, and each step may raise.
\<close>

definition has_result :: "json \<Rightarrow> py_error + bool" where
  "has_result result =
     (case py_in (ascii ''result'') result of
        Inl e \<Rightarrow> Inl e
      | Inr False \<Rightarrow> Inr False
      | Inr True \<Rightarrow>
          (case getitem_str result (ascii ''result'') of
             Inl e \<Rightarrow> Inl e
           | Inr r \<Rightarrow> (case py_len r of Inl e \<Rightarrow> Inl e | Inr n \<Rightarrow> Inr (n > 0))))"

text \<open>Line 69, \<open>result['result'][0]['keyword']\<close>.\<close>

definition first_keyword :: "json \<Rightarrow> py_error + json" where
  "first_keyword result =
     (case getitem_str result (ascii ''result'') of
        Inl e \<Rightarrow> Inl e
      | Inr r \<Rightarrow>
          (case getitem_0 r of
             Inl e \<Rightarrow> Inl e
           | Inr r0 \<Rightarrow> getitem_str r0 (ascii ''keyword'')))"

definition classify_image :: "'img world \<Rightarrow> 'img \<Rightarrow> json io" where
  "classify_image w img =
     bind (get_access_token w) (\<lambda>access_token.
       if \<not> truthy access_token then ret (JStr auth_failed)
       else
         bind (lift (jpeg_base64 w img)) (\<lambda>img_base64.
           let url = classify_url (format_value w access_token);
               headers = classify_headers;
               data = [(ascii ''image'', img_base64)]
           in bind (perform (HttpPost url headers data) (requests_post w url headers data))
                (\<lambda>response.
                  if status_code response = 200
                  then bind (lift (body_json response)) (\<lambda>result.
                         bind (lift (has_result result)) (\<lambda>found.
                           if found then lift (first_keyword result)
                           else ret (JStr unrecognized)))
                  else ret (JStr (api_failed_prefix @ body_text response)))))"

section \<open>Recommendations\<close>

definition load_text_model ::
  "'img world \<Rightarrow> py_error + (pystr \<Rightarrow> nat \<Rightarrow> nat \<Rightarrow> py_error + json)" where
  "load_text_model w = pipeline w"

text \<open>Line 47 and line 81, \<open>response[0]['generated_text']\<close>.\<close>

definition generated_text :: "json \<Rightarrow> py_error + json" where
  "generated_text response =
     (case getitem_0 response of
        Inl e \<Rightarrow> Inl e
      | Inr r0 \<Rightarrow> getitem_str r0 (ascii ''generated_text''))"



text \<open>
  The prompt of line 79: U+4E3A, the weather, three characters, the occasion, nine
  characters (the third a full-width comma U+FF0C), the clothing type, four characters
  ending in U+FF1A.
\<close>

definition image_prompt :: "pystr \<Rightarrow> pystr \<Rightarrow> pystr \<Rightarrow> pystr" where
  "image_prompt weather occasion clothing_type =
     [0x4E3A] @ weather @ [0x5929, 0x6C14, 0x7684] @ occasion
     @ [0x573A, 0x5408, 0xFF0C, 0x63A8, 0x8350, 0x4E00, 0x5957, 0x5305, 0x542B]
     @ clothing_type @ [0x7684, 0x7A7F, 0x642D, 0xFF1A]"

definition recommend_outfit_by_image ::
  "'img world \<Rightarrow> 'img \<Rightarrow> pystr \<Rightarrow> pystr \<Rightarrow> (json \<times> json) io" where
  "recommend_outfit_by_image w img weather occasion =
     bind (classify_image w img) (\<lambda>clothing_type.
       bind (lift (load_text_model w)) (\<lambda>model.
         let prompt = image_prompt weather occasion (format_value w clothing_type)
         in bind (perform (ModelCall prompt 150 1) (model prompt 150 1)) (\<lambda>response.
              bind (lift (generated_text response)) (\<lambda>generated.
                ret (generated, clothing_type)))))"

section \<open>The selectors of the form\<close>




section \<open>Example worlds\<close>

text \<open>
  Concrete worlds on which the theorems below are run: the token endpoint answers
  every GET with \<open>token_response\<close>, the classification endpoint every POST with
  \<open>classify_response\<close>, and the pipeline returns one sequence, the prompt followed by
  a fixed continuation. Images are of type \<open>unit\<close>.
\<close>

definition example_world :: "http_response \<Rightarrow> http_response \<Rightarrow> unit world" where
  "example_world token_response classify_response =
     \<lparr>API_KEY = ascii ''key'',
      SECRET_KEY = ascii ''secret'',
      requests_get = (\<lambda>url. Inr token_response),
      requests_post = (\<lambda>url headers data. Inr classify_response),
      pipeline = Inr (\<lambda>prompt max_length n.
                   Inr (JList [JObj [(ascii ''generated_text'', JStr (prompt @ ascii '' jeans''))]])),
      jpeg_base64 = (\<lambda>img. Inr (ascii ''/9j/4AAQSkZJRg=='')),
      py_str = (\<lambda>v. ascii ''?''),
      clock = 1000\<rparr>"

definition token_ok :: http_response where
  "token_ok =
     \<lparr>status_code = 200,
      body_text = ascii ''{\"access_token\": \"24.abc\"}'',
      body_json = Inr (JObj [(ascii ''access_token'', JStr (ascii ''24.abc''))])\<rparr>"

definition token_denied :: http_response where
  "token_denied =
     \<lparr>status_code = 401,
      body_text = ascii ''{\"error\": \"invalid_client\"}'',
      body_json = Inr (JObj [(ascii ''error'', JStr (ascii ''invalid_client''))])\<rparr>"

definition classify_tshirt :: http_response where
  "classify_tshirt =
     \<lparr>status_code = 200,
      body_text = ascii ''{\"result\": [{\"keyword\": \"T-shirt\"}]}'',
      body_json = Inr (JObj [(ascii ''result'',
                              JList [JObj [(ascii ''keyword'', JStr (ascii ''T-shirt''))]])])\<rparr>"



definition classify_broken :: http_response where
  "classify_broken =
     \<lparr>status_code = 500,
      body_text = ascii ''Internal Server Error'',
      body_json = Inl JSONDecodeError\<rparr>"

definition fresh_session :: session where
  "fresh_session = \<lparr>token_cache = None, log = []\<rparr>"


text \<open>
  The disk as \<open>app.py\<close> leaves it when it starts in an empty directory: \<open>history/\<close>
  exists and is empty. The path \<open>history/a/b_history.json\<close> lies in the directory
  \<open>history/a\<close>, which does not exist, so opening it for writing raises
  \<open>FileNotFoundError\<close>; the other paths used below are plain names in \<open>history/\<close>.
\<close>

definition fresh_disk :: disk where
  "fresh_disk =
     \<lparr>files = Map.empty,
      open_for_writing =
        (\<lambda>filename. if filename = ascii ''history/a/b_history.json''
                     then Some FileNotFoundError else None)\<rparr>"

section \<open>Auxiliary facts\<close>

lemma ascii_eq_iff [simp]: "ascii a = ascii b \<longleftrightarrow> a = b"
  by (simp add: ascii_def inj_of_char)

lemma ascii_append: "ascii a @ ascii b = ascii (a @ b)"
  by (simp add: ascii_def)

lemma history_filename_inj: "history_filename a = history_filename b \<longleftrightarrow> a = b"
  by (simp add: history_filename_def)

lemma history_filename_ascii:
  "history_filename (ascii u) = ascii (''history/'' @ u @ ''_history.json'')"
  by (simp add: history_filename_def ascii_def)

lemma serializable_history_entry:
  "serializable (history_entry now user_id occasion weather style recommendation clothing_type)
     \<longleftrightarrow> serializable recommendation
          \<and> (case clothing_type of None \<Rightarrow> True | Some c \<Rightarrow> serializable c)"
  by (simp add: history_entry_def split: option.splits)

lemma load_history_written:
  "load_history (d\<lparr>files := (files d)(history_filename user_id \<mapsto> Json v)\<rparr>) user_id = Inr v"
  by (simp add: load_history_def json_load_def)

lemma load_history_list_iff:
  "load_history d user_id = Inr (JList xs) \<longleftrightarrow>
     (files d (history_filename user_id) = None \<and> xs = [])
     \<or> (files d (history_filename user_id) = Some (Raises JSONDecodeError) \<and> xs = [])
     \<or> files d (history_filename user_id) = Some (Json (JList xs))"
  by (auto simp: load_history_def json_load_def
           split: option.splits history_file.splits py_error.splits)

text \<open>What \<open>save_history\<close> reads is what \<open>load_history\<close> returns.\<close>

lemma save_history_by_load:
  "save_history now d user_id occasion weather style recommendation clothing_type =
     (let entry = history_entry now user_id occasion weather style recommendation clothing_type;
          filename = history_filename user_id
      in case load_history d user_id of
           Inl e \<Rightarrow> (Inl e, d)
         | Inr data \<Rightarrow>
             (case py_append data entry of
                Inl e \<Rightarrow> (Inl e, d)
              | Inr data' \<Rightarrow>
                  (case open_for_writing d filename of
                     Some e \<Rightarrow> (Inl e, d)
                   | None \<Rightarrow>
                       if serializable entry
                       then (Inr True, d\<lparr>files := (files d)(filename \<mapsto> Json data')\<rparr>)
                       else (Inl TypeError,
                             d\<lparr>files := (files d)(filename \<mapsto> Raises JSONDecodeError)\<rparr>))))"
  by (simp add: save_history_def load_history_def Let_def)

text \<open>When the history read back is a list, the file can be opened for writing and the
  entry can be dumped, \<open>save_history\<close> writes that list with the new entry at its end
  and returns \<open>True\<close>.\<close>

lemma save_history_list:
  assumes "load_history d user_id = Inr (JList old)"
      and "open_for_writing d (history_filename user_id) = None"
      and "serializable recommendation"
      and "case clothing_type of None \<Rightarrow> True | Some c \<Rightarrow> serializable c"
  shows "save_history now d user_id occasion weather style recommendation clothing_type =
           (Inr True,
            d\<lparr>files := (files d)(history_filename user_id \<mapsto>
              Json (JList (old @ [history_entry now user_id occasion weather style
                                    recommendation clothing_type])))\<rparr>)"
  using assms
  by (simp add: save_history_by_load serializable_history_entry Let_def)

text \<open>The ways \<open>save_history\<close> raises.\<close>

lemma save_history_read_error:
  assumes "load_history d user_id = Inl e"
  shows "save_history now d user_id occasion weather style recommendation clothing_type = (Inl e, d)"
  using assms by (simp add: save_history_by_load Let_def)

lemma save_history_not_list:
  assumes "load_history d user_id = Inr v" and "\<forall>xs. v \<noteq> JList xs"
  shows "save_history now d user_id occasion weather style recommendation clothing_type =
           (Inl AttributeError, d)"
  using assms by (cases v) (simp_all add: save_history_by_load Let_def)

lemma save_history_cannot_open:
  assumes "load_history d user_id = Inr (JList old)"
      and "open_for_writing d (history_filename user_id) = Some e"
  shows "save_history now d user_id occasion weather style recommendation clothing_type = (Inl e, d)"
  using assms by (simp add: save_history_by_load Let_def)

lemma save_history_cannot_dump:
  assumes "load_history d user_id = Inr (JList old)"
      and "open_for_writing d (history_filename user_id) = None"
      and "\<not> (serializable recommendation
              \<and> (case clothing_type of None \<Rightarrow> True | Some c \<Rightarrow> serializable c))"
  shows "save_history now d user_id occasion weather style recommendation clothing_type =
           (Inl TypeError,
            d\<lparr>files := (files d)(history_filename user_id \<mapsto> Raises JSONDecodeError)\<rparr>)"
  using assms by (simp add: save_history_by_load serializable_history_entry Let_def)

text \<open>\<open>save_history\<close> returns \<open>True\<close> or raises: it never returns \<open>False\<close>.\<close>

lemma save_history_never_false:
  "fst (save_history now d user_id occasion weather style recommendation clothing_type)
     \<noteq> Inr False"
  by (simp add: save_history_by_load Let_def split: sum.splits option.splits)


lemma load_after_save:
  assumes "load_history d user_id = Inr (JList old)"
      and "open_for_writing d (history_filename user_id) = None"
      and "serializable recommendation"
      and "case clothing_type of None \<Rightarrow> True | Some c \<Rightarrow> serializable c"
  shows "load_history
           (snd (save_history now d user_id occasion weather style recommendation clothing_type))
           user_id
         = Inr (JList (old @ [history_entry now user_id occasion weather style
                                recommendation clothing_type]))"
  by (simp add: save_history_list[OF assms] load_history_written)

lemma fresh_disk_empty: "load_history fresh_disk user_id = Inr (JList [])"
  by (simp add: load_history_def fresh_disk_def)

lemma fresh_disk_plain_name:
  assumes "u \<noteq> ''a/b''"
  shows "open_for_writing fresh_disk (history_filename (ascii u)) = None"
  using assms by (simp add: fresh_disk_def history_filename_ascii)

lemma fresh_disk_subdirectory:
  "open_for_writing fresh_disk (history_filename (ascii ''a/b'')) = Some FileNotFoundError"
  by (simp add: fresh_disk_def history_filename_ascii)

subsection \<open>Requests\<close>

lemma get_access_token_miss:
  assumes "cache_miss w s"
  shows "get_access_token w s =
           (case get_access_token_body w of
              (Inl e, evs) \<Rightarrow> (Inl e, s\<lparr>log := log s @ evs\<rparr>)
            | (Inr v, evs) \<Rightarrow>
                (Inr v, s\<lparr>token_cache := Some (v, filter is_st_element evs, clock w),
                          log := log s @ evs\<rparr>))"
  using assms by (auto simp: get_access_token_def cache_miss_def Let_def split: option.splits)

lemma get_access_token_body_denied:
  assumes "requests_get w (token_url (API_KEY w) (SECRET_KEY w)) = Inr response"
      and "status_code response \<noteq> 200"
  shows "get_access_token_body w =
           (Inr JNull, [HttpGet (token_url (API_KEY w) (SECRET_KEY w)), StError token_error_message])"
  using assms by (simp add: get_access_token_body_def Let_def)

lemma get_access_token_denied:
  assumes "cache_miss w s"
      and "requests_get w (token_url (API_KEY w) (SECRET_KEY w)) = Inr response"
      and "status_code response \<noteq> 200"
  shows "get_access_token w s =
           (Inr JNull,
            s\<lparr>token_cache := Some (JNull, [StError token_error_message], clock w),
              log := log s @ [HttpGet (token_url (API_KEY w) (SECRET_KEY w)),
                              StError token_error_message]\<rparr>)"
  by (simp add: get_access_token_miss[OF assms(1)] get_access_token_body_denied[OF assms(2,3)])

lemma classify_image_no_token:
  assumes "get_access_token w s = (Inr access_token, s1)" and "\<not> truthy access_token"
  shows "classify_image w img s = (Inr (JStr auth_failed), s1)"
  using assms by (simp add: classify_image_def bind_def ret_def)

lemma classify_image_posted:
  assumes "get_access_token w s = (Inr access_token, s1)" and "truthy access_token"
      and "jpeg_base64 w img = Inr img_base64"
      and "requests_post w (classify_url (format_value w access_token)) classify_headers
             [(ascii ''image'', img_base64)] = Inr response"
  shows "classify_image w img s =
           (let s2 = s1\<lparr>log := log s1 @ [HttpPost (classify_url (format_value w access_token))
                                           classify_headers [(ascii ''image'', img_base64)]]\<rparr>
            in if status_code response = 200
               then (case body_json response of
                       Inl e \<Rightarrow> (Inl e, s2)
                     | Inr result \<Rightarrow>
                         (case has_result result of
                            Inl e \<Rightarrow> (Inl e, s2)
                          | Inr found \<Rightarrow>
                              if found then (first_keyword result, s2)
                              else (Inr (JStr unrecognized), s2)))
               else (Inr (JStr (api_failed_prefix @ body_text response)), s2))"
  using assms
  by (simp add: classify_image_def bind_def ret_def lift_def perform_def Let_def
           split: sum.splits)

lemma has_result_nonempty:
  assumes "map_of members (ascii ''result'') = Some (JList (x # xs))"
  shows "has_result (JObj members) = Inr True"
proof -
  from assms have "(ascii ''result'', JList (x # xs)) \<in> set members" by (rule map_of_SomeD)
  then have "ascii ''result'' \<in> fst ` set members" by force
  with assms show ?thesis by (simp add: has_result_def)
qed



lemma first_keyword_found:
  assumes "map_of members (ascii ''result'') = Some (JList (JObj item # others))"
      and "map_of item (ascii ''keyword'') = Some keyword"
  shows "first_keyword (JObj members) = Inr keyword"
  using assms by (simp add: first_keyword_def)

lemma recommend_after_classify:
  assumes "classify_image w img s = (Inr clothing_type, s1)"
      and "pipeline w = Inr model"
  shows "recommend_outfit_by_image w img weather occasion s =
           (let prompt = image_prompt weather occasion (format_value w clothing_type);
                s2 = s1\<lparr>log := log s1 @ [ModelCall prompt 150 1]\<rparr>
            in case model prompt 150 1 of
                 Inl e \<Rightarrow> (Inl e, s2)
               | Inr response \<Rightarrow>
                   (case generated_text response of
                      Inl e \<Rightarrow> (Inl e, s2)
                    | Inr generated \<Rightarrow> (Inr (generated, clothing_type), s2)))"
  using assms
  by (simp add: recommend_outfit_by_image_def load_text_model_def bind_def ret_def lift_def
        perform_def Let_def split: sum.splits)




lemma fresh_miss: "cache_miss w fresh_session"
  by (simp add: cache_miss_def fresh_session_def)

lemma example_token_ok:
  "get_access_token (example_world token_ok c) fresh_session =
     (Inr (JStr (ascii ''24.abc'')),
      \<lparr>token_cache = Some (JStr (ascii ''24.abc''), [], 1000),
       log = [HttpGet (token_url (ascii ''key'') (ascii ''secret''))]\<rparr>)"
  unfolding get_access_token_miss[OF fresh_miss]
  by (simp add: get_access_token_body_def example_world_def token_ok_def fresh_session_def Let_def)

lemma example_token_denied:
  "get_access_token (example_world token_denied c) fresh_session =
     (Inr JNull,
      \<lparr>token_cache = Some (JNull, [StError token_error_message], 1000),
       log = [HttpGet (token_url (ascii ''key'') (ascii ''secret'')),
              StError token_error_message]\<rparr>)"
  unfolding get_access_token_miss[OF fresh_miss]
  by (simp add: get_access_token_body_def example_world_def token_denied_def fresh_session_def Let_def)

lemma example_world_simps:
  "API_KEY (example_world t c) = ascii ''key''"
  "SECRET_KEY (example_world t c) = ascii ''secret''"
  "requests_get (example_world t c) url = Inr t"
  "requests_post (example_world t c) url headers data = Inr c"
  "jpeg_base64 (example_world t c) img = Inr (ascii ''/9j/4AAQSkZJRg=='')"
  "clock (example_world t c) = 1000"
  "pipeline (example_world t c) = Inr (\<lambda>prompt max_length n.
                   Inr (JList [JObj [(ascii ''generated_text'', JStr (prompt @ ascii '' jeans''))]]))"
  by (simp_all add: example_world_def)

lemma truthy_example_token: "truthy (JStr (ascii ''24.abc''))"
  by (simp add: ascii_def)

section \<open>History store: the claims\<close>

text \<open>
  A user identifier that is not a plain file name: on the fresh disk, for the user
  \<open>a/b\<close>, \<open>save_history\<close> raises \<open>FileNotFoundError\<close> when it opens the file for
  writing, and \<open>load_history\<close> returns the empty list before and after.
\<close>

theorem save_then_load_subdirectory_counterexample:
  "load_history fresh_disk (ascii ''a/b'') = Inr (JList [])
   \<and> fst (save_history (ascii ''2025-06-01 09:30:00'') fresh_disk (ascii ''a/b'')
             [0x65E5, 0x5E38] [0x708E, 0x70ED] [0x4F11, 0x95F2]
             (JStr (ascii ''linen shirt'')) None)
       = Inl FileNotFoundError
   \<and> load_history
         (snd (save_history (ascii ''2025-06-01 09:30:00'') fresh_disk (ascii ''a/b'')
                 [0x65E5, 0x5E38] [0x708E, 0x70ED] [0x4F11, 0x95F2]
                 (JStr (ascii ''linen shirt'')) None))
         (ascii ''a/b'')
       = Inr (JList [])"
  by (simp add: save_history_cannot_open[OF fresh_disk_empty fresh_disk_subdirectory]
        fresh_disk_empty)

text \<open>
  C1, as the code has it. For every user identifier whose history file can be opened
  for writing and every entry whose values \<open>json.dump\<close> can write: when
  \<open>load_history\<close> returns a list before, \<open>save_history\<close> returns \<open>True\<close>, and
  \<open>load_history\<close> for the same user then returns a list whose last element is the
  entry with the seven values passed and whose length is one more than before.
  (\<open>load_history\<close> returns a list when the user's file is absent, is rejected by
  \<open>json.load\<close> with \<open>JSONDecodeError\<close>, or holds a JSON array.)
\<close>

theorem save_then_load_appends_entry:
  assumes "load_history d user_id = Inr (JList before)"
      and "open_for_writing d (history_filename user_id) = None"
      and "serializable recommendation"
      and "case clothing_type of None \<Rightarrow> True | Some c \<Rightarrow> serializable c"
  shows "fst (save_history now d user_id occasion weather style recommendation clothing_type)
           = Inr True
         \<and> (\<exists>after.
               load_history
                 (snd (save_history now d user_id occasion weather style recommendation
                         clothing_type))
                 user_id = Inr (JList after)
               \<and> last after =
                   JObj [(ascii ''user_id'', JStr user_id),
                         (ascii ''occasion'', JStr occasion),
                         (ascii ''weather'', JStr weather),
                         (ascii ''style'', JStr style),
                         (ascii ''recommendation'', recommendation),
                         (ascii ''clothing_type'',
                          (case clothing_type of None \<Rightarrow> JNull | Some c \<Rightarrow> c)),
                         (ascii ''timestamp'', JStr now)]
               \<and> length after = length before + 1)"
proof -
  let ?entry = "history_entry now user_id occasion weather style recommendation clothing_type"
  have "fst (save_history now d user_id occasion weather style recommendation clothing_type)
          = Inr True"
    by (simp add: save_history_list[OF assms])
  moreover have "load_history
          (snd (save_history now d user_id occasion weather style recommendation
                  clothing_type))
          user_id = Inr (JList (before @ [?entry]))"
    using assms by (rule load_after_save)
  moreover have "last (before @ [?entry]) =
                   JObj [(ascii ''user_id'', JStr user_id),
                         (ascii ''occasion'', JStr occasion),
                         (ascii ''weather'', JStr weather),
                         (ascii ''style'', JStr style),
                         (ascii ''recommendation'', recommendation),
                         (ascii ''clothing_type'',
                          (case clothing_type of None \<Rightarrow> JNull | Some c \<Rightarrow> c)),
                         (ascii ''timestamp'', JStr now)]"
    by (simp add: history_entry_def)
  moreover have "length (before @ [?entry]) = length before + 1" by simp
  ultimately show ?thesis by blast
qed

theorem save_then_load_appends_entry_witness:
  "load_history (fresh_disk\<lparr>files := [history_filename (ascii ''42'') \<mapsto> Json (JList [JInt 7])]\<rparr>)
     (ascii ''42'') = Inr (JList [JInt 7])
   \<and> open_for_writing
        (fresh_disk\<lparr>files := [history_filename (ascii ''42'') \<mapsto> Json (JList [JInt 7])]\<rparr>)
        (history_filename (ascii ''42'')) = None
   \<and> serializable (JStr (ascii ''linen shirt''))
   \<and> fst (save_history (ascii ''2025-06-01 09:30:00'')
             (fresh_disk\<lparr>files := [history_filename (ascii ''42'') \<mapsto> Json (JList [JInt 7])]\<rparr>)
             (ascii ''42'') [0x65E5, 0x5E38] [0x708E, 0x70ED] [0x4F11, 0x95F2]
             (JStr (ascii ''linen shirt'')) None) = Inr True
   \<and> (\<exists>after.
         load_history
           (snd (save_history (ascii ''2025-06-01 09:30:00'')
                   (fresh_disk\<lparr>files := [history_filename (ascii ''42'') \<mapsto> Json (JList [JInt 7])]\<rparr>)
                   (ascii ''42'') [0x65E5, 0x5E38] [0x708E, 0x70ED] [0x4F11, 0x95F2]
                   (JStr (ascii ''linen shirt'')) None))
           (ascii ''42'') = Inr (JList after)
         \<and> last after =
             JObj [(ascii ''user_id'', JStr (ascii ''42'')),
                   (ascii ''occasion'', JStr [0x65E5, 0x5E38]),
                   (ascii ''weather'', JStr [0x708E, 0x70ED]),
                   (ascii ''style'', JStr [0x4F11, 0x95F2]),
                   (ascii ''recommendation'', JStr (ascii ''linen shirt'')),
                   (ascii ''clothing_type'', JNull),
                   (ascii ''timestamp'', JStr (ascii ''2025-06-01 09:30:00''))]
         \<and> length after = length [JInt 7] + 1)"
proof -
  let ?d = "fresh_disk\<lparr>files := [history_filename (ascii ''42'') \<mapsto> Json (JList [JInt 7])]\<rparr>"
  have 1: "load_history ?d (ascii ''42'') = Inr (JList [JInt 7])"
    by (simp add: load_history_def json_load_def)
  have 2: "open_for_writing ?d (history_filename (ascii ''42'')) = None"
    by (simp add: fresh_disk_plain_name)
  have 3: "serializable (JStr (ascii ''linen shirt''))" by simp
  have 4: "case None of None \<Rightarrow> True | Some c \<Rightarrow> serializable c" by simp
  from 1 2 3
    save_then_load_appends_entry[OF 1 2 3 4,
      of "ascii ''2025-06-01 09:30:00''" "[0x65E5, 0x5E38]" "[0x708E, 0x70ED]" "[0x4F11, 0x95F2]"]
  show ?thesis by simp
qed

text \<open>
  A file of bytes that are not text: \<open>json.load\<close> raises \<open>UnicodeDecodeError\<close>, which
  \<open>load_history\<close> does not catch.
\<close>

theorem load_history_undecodable_counterexample:
  "files (fresh_disk\<lparr>files := [history_filename (ascii ''7'') \<mapsto> Raises UnicodeDecodeError]\<rparr>)
     (history_filename (ascii ''7'')) = Some (Raises UnicodeDecodeError)
   \<and> load_history
        (fresh_disk\<lparr>files := [history_filename (ascii ''7'') \<mapsto> Raises UnicodeDecodeError]\<rparr>)
        (ascii ''7'')
      = Inl UnicodeDecodeError"
  by (simp add: load_history_def json_load_def)

text \<open>
  C7, as the code has it. For every user identifier, \<open>load_history\<close> returns the
  empty list, and raises nothing, when the user's history file is absent and when the
  file exists and \<open>json.load\<close> rejects it with \<open>JSONDecodeError\<close>; any other
  exception raised while the file is read propagates.
\<close>

theorem load_history_absent_or_malformed:
  "(files d (history_filename user_id) = None
      \<or> files d (history_filename user_id) = Some (Raises JSONDecodeError)
    \<longrightarrow> load_history d user_id = Inr (JList []))
   \<and> (files d (history_filename user_id) = Some (Raises e) \<and> e \<noteq> JSONDecodeError
    \<longrightarrow> load_history d user_id = Inl e)"
  by (cases e) (auto simp: load_history_def json_load_def)

theorem load_history_absent_or_malformed_witness:
  "files fresh_disk (history_filename (ascii ''7'')) = None
   \<and> load_history fresh_disk (ascii ''7'') = Inr (JList [])
   \<and> files (fresh_disk\<lparr>files := [history_filename (ascii ''7'') \<mapsto> Raises JSONDecodeError]\<rparr>)
        (history_filename (ascii ''7'')) = Some (Raises JSONDecodeError)
   \<and> load_history
        (fresh_disk\<lparr>files := [history_filename (ascii ''7'') \<mapsto> Raises JSONDecodeError]\<rparr>)
        (ascii ''7'') = Inr (JList [])
   \<and> files (fresh_disk\<lparr>files := [history_filename (ascii ''7'') \<mapsto> Raises RecursionError]\<rparr>)
        (history_filename (ascii ''7'')) = Some (Raises RecursionError)
   \<and> load_history
        (fresh_disk\<lparr>files := [history_filename (ascii ''7'') \<mapsto> Raises RecursionError]\<rparr>)
        (ascii ''7'') = Inl RecursionError"
proof -
  have 0: "files fresh_disk (history_filename (ascii ''7'')) = None"
    by (simp add: fresh_disk_def)
  from 0
    load_history_absent_or_malformed[of fresh_disk "ascii ''7''" RecursionError]
    load_history_absent_or_malformed[of
      "fresh_disk\<lparr>files := [history_filename (ascii ''7'') \<mapsto> Raises JSONDecodeError]\<rparr>"
      "ascii ''7''" RecursionError]
    load_history_absent_or_malformed[of
      "fresh_disk\<lparr>files := [history_filename (ascii ''7'') \<mapsto> Raises RecursionError]\<rparr>"
      "ascii ''7''" RecursionError]
  show ?thesis by simp
qed




text \<open>
  A history file that holds a JSON object: \<open>load_history\<close> returns the object, and
  \<open>save_history\<close> raises \<open>AttributeError\<close> at \<open>data.append\<close> instead of returning
  \<open>True\<close>.
\<close>

theorem save_history_not_a_list_counterexample:
  "load_history (fresh_disk\<lparr>files := [history_filename (ascii ''42'') \<mapsto> Json (JObj [])]\<rparr>)
     (ascii ''42'') = Inr (JObj [])
   \<and> fst (save_history (ascii ''2025-06-01 09:30:00'')
             (fresh_disk\<lparr>files := [history_filename (ascii ''42'') \<mapsto> Json (JObj [])]\<rparr>)
             (ascii ''42'') [0x65E5, 0x5E38] [0x708E, 0x70ED] [0x4F11, 0x95F2]
             (JStr (ascii ''linen shirt'')) None)
       = Inl AttributeError"
proof -
  let ?d = "fresh_disk\<lparr>files := [history_filename (ascii ''42'') \<mapsto> Json (JObj [])]\<rparr>"
  have 1: "load_history ?d (ascii ''42'') = Inr (JObj [])"
    by (simp add: load_history_def json_load_def)
  have 2: "\<forall>xs. JObj [] \<noteq> JList xs" by simp
  show ?thesis by (simp add: 1 save_history_not_list[OF 1 2])
qed

text \<open>
  C10, as the code has it. The entry \<open>save_history\<close> builds has exactly the seven keys
  \<open>user_id\<close>, \<open>occasion\<close>, \<open>weather\<close>, \<open>style\<close>, \<open>recommendation\<close>,
  \<open>clothing_type\<close>, \<open>timestamp\<close>; the key \<open>clothing_type\<close> is there with the value
  \<open>None\<close> (JSON \<open>null\<close>) when the caller passes no clothing type. When the history
  read back is a list, the file can be opened for writing and \<open>json.dump\<close> can write
  the values, that entry is written at the end of the file and the call returns
  \<open>True\<close>; every call that returns, returns \<open>True\<close>.
\<close>

theorem save_history_entry_fields:
  "dict_keys (history_entry now user_id occasion weather style recommendation clothing_type)
     = [ascii ''user_id'', ascii ''occasion'', ascii ''weather'', ascii ''style'',
        ascii ''recommendation'', ascii ''clothing_type'', ascii ''timestamp'']
   \<and> getitem_str (history_entry now user_id occasion weather style recommendation None)
         (ascii ''clothing_type'') = Inr JNull
   \<and> getitem_str (history_entry now user_id occasion weather style recommendation (Some c))
         (ascii ''clothing_type'') = Inr c
   \<and> (load_history d user_id = Inr (JList old)
        \<and> open_for_writing d (history_filename user_id) = None
        \<and> serializable recommendation
        \<and> (case clothing_type of None \<Rightarrow> True | Some c \<Rightarrow> serializable c)
       \<longrightarrow>
        save_history now d user_id occasion weather style recommendation clothing_type
          = (Inr True,
             d\<lparr>files := (files d)(history_filename user_id \<mapsto>
               Json (JList (old @ [history_entry now user_id occasion weather style
                                     recommendation clothing_type])))\<rparr>))
   \<and> fst (save_history now d user_id occasion weather style recommendation clothing_type)
         \<noteq> Inr False"
proof -
  have keys: "dict_keys (history_entry now user_id occasion weather style recommendation clothing_type)
     = [ascii ''user_id'', ascii ''occasion'', ascii ''weather'', ascii ''style'',
        ascii ''recommendation'', ascii ''clothing_type'', ascii ''timestamp'']"
    by (simp add: history_entry_def)
  have absent: "getitem_str (history_entry now user_id occasion weather style recommendation None)
         (ascii ''clothing_type'') = Inr JNull"
    by (simp add: history_entry_def)
  have given: "getitem_str (history_entry now user_id occasion weather style recommendation (Some c))
         (ascii ''clothing_type'') = Inr c"
    by (simp add: history_entry_def)
  from keys absent given show ?thesis
    by (simp add: save_history_list save_history_never_false)
qed

theorem save_history_entry_fields_witness:
  "load_history fresh_disk (ascii ''42'') = Inr (JList [])
   \<and> open_for_writing fresh_disk (history_filename (ascii ''42'')) = None
   \<and> serializable (JStr (ascii ''linen shirt''))
   \<and> save_history (ascii ''2025-06-01 09:30:00'') fresh_disk (ascii ''42'')
        [0x65E5, 0x5E38] [0x708E, 0x70ED] [0x4F11, 0x95F2] (JStr (ascii ''linen shirt'')) None
      = (Inr True,
         fresh_disk\<lparr>files := [history_filename (ascii ''42'') \<mapsto>
            Json (JList [JObj [(ascii ''user_id'', JStr (ascii ''42'')),
                               (ascii ''occasion'', JStr [0x65E5, 0x5E38]),
                               (ascii ''weather'', JStr [0x708E, 0x70ED]),
                               (ascii ''style'', JStr [0x4F11, 0x95F2]),
                               (ascii ''recommendation'', JStr (ascii ''linen shirt'')),
                               (ascii ''clothing_type'', JNull),
                               (ascii ''timestamp'', JStr (ascii ''2025-06-01 09:30:00''))]])]\<rparr>)"
proof -
  have 1: "load_history fresh_disk (ascii ''42'') = Inr (JList [])" by (rule fresh_disk_empty)
  have 2: "open_for_writing fresh_disk (history_filename (ascii ''42'')) = None"
    by (simp add: fresh_disk_plain_name)
  have 3: "serializable (JStr (ascii ''linen shirt''))" by simp
  have 4: "files fresh_disk = Map.empty" by (simp add: fresh_disk_def)
  from 1 2 3 4
    save_history_entry_fields[of "ascii ''2025-06-01 09:30:00''" "ascii ''42''"
         "[0x65E5, 0x5E38]" "[0x708E, 0x70ED]" "[0x4F11, 0x95F2]" "JStr (ascii ''linen shirt'')"
         None _ fresh_disk "[]"]
  show ?thesis by (simp add: history_entry_def)
qed

section \<open>Classifier adapter: the claims\<close>

text \<open>
  C3. For every answer of the token endpoint whose status code is not 200,
  \<open>get_access_token\<close> returns \<open>None\<close>, and \<open>classify_image\<close> then returns its
  fixed string without a POST: the only effects are the GET of the token and the
  error message.
\<close>

theorem token_denied_no_classification:
  assumes "cache_miss w s"
      and "requests_get w (token_url (API_KEY w) (SECRET_KEY w)) = Inr response"
      and "status_code response \<noteq> 200"
  shows "fst (get_access_token w s) = Inr JNull
       \<and> fst (classify_image w img s) = Inr (JStr auth_failed)
       \<and> log (snd (classify_image w img s))
           = log s @ [HttpGet (token_url (API_KEY w) (SECRET_KEY w)), StError token_error_message]
       \<and> filter is_post (log (snd (classify_image w img s))) = filter is_post (log s)"
proof -
  let ?s1 = "s\<lparr>token_cache := Some (JNull, [StError token_error_message], clock w),
               log := log s @ [HttpGet (token_url (API_KEY w) (SECRET_KEY w)),
                               StError token_error_message]\<rparr>"
  have tok: "get_access_token w s = (Inr JNull, ?s1)"
    using assms by (rule get_access_token_denied)
  have cls: "classify_image w img s = (Inr (JStr auth_failed), ?s1)"
    using tok by (rule classify_image_no_token) simp
  show ?thesis by (simp add: tok cls)
qed

theorem token_denied_no_classification_witness:
  "cache_miss (example_world token_denied classify_tshirt) fresh_session
   \<and> status_code token_denied \<noteq> 200
   \<and> fst (get_access_token (example_world token_denied classify_tshirt) fresh_session) = Inr JNull
   \<and> fst (classify_image (example_world token_denied classify_tshirt) () fresh_session)
       = Inr (JStr auth_failed)
   \<and> filter is_post
        (log (snd (classify_image (example_world token_denied classify_tshirt) () fresh_session)))
       = []"
proof -
  let ?w = "example_world token_denied classify_tshirt"
  have 1: "cache_miss ?w fresh_session" by (rule fresh_miss)
  have 2: "requests_get ?w (token_url (API_KEY ?w) (SECRET_KEY ?w)) = Inr token_denied"
    by (simp add: example_world_simps)
  have 3: "status_code token_denied \<noteq> 200" by (simp add: token_denied_def)
  have 4: "log fresh_session = []" by (simp add: fresh_session_def)
  from token_denied_no_classification[OF 1 2 3, of "()"] 1 3 4 show ?thesis
    by simp
qed

text \<open>
  C4. For every answer of the classification endpoint with status 200 whose body is an
  object with a non-empty list under \<open>result\<close>, the first element of which has a
  \<open>keyword\<close>, \<open>classify_image\<close> returns that keyword. The run below is the case
  \<open>result = [{"keyword": "T-shirt"}]\<close>, which gives \<open>"T-shirt"\<close>.
\<close>

theorem classify_image_first_keyword:
  assumes "get_access_token w s = (Inr access_token, s1)" and "truthy access_token"
      and "jpeg_base64 w img = Inr img_base64"
      and "requests_post w (classify_url (format_value w access_token)) classify_headers
             [(ascii ''image'', img_base64)] = Inr response"
      and "status_code response = 200"
      and "body_json response = Inr (JObj members)"
      and "map_of members (ascii ''result'') = Some (JList (JObj item # others))"
      and "map_of item (ascii ''keyword'') = Some keyword"
  shows "fst (classify_image w img s) = Inr keyword"
  using assms(5,6)
  by (simp add: classify_image_posted[OF assms(1-4)] has_result_nonempty[OF assms(7)]
        first_keyword_found[OF assms(7,8)] Let_def)

theorem classify_image_first_keyword_witness:
  "truthy (JStr (ascii ''24.abc''))
   \<and> status_code classify_tshirt = 200
   \<and> body_json classify_tshirt
       = Inr (JObj [(ascii ''result'',
                     JList [JObj [(ascii ''keyword'', JStr (ascii ''T-shirt''))]])])
   \<and> fst (classify_image (example_world token_ok classify_tshirt) () fresh_session)
       = Inr (JStr (ascii ''T-shirt''))"
proof -
  let ?w = "example_world token_ok classify_tshirt"
  have 1: "truthy (JStr (ascii ''24.abc''))" by (rule truthy_example_token)
  have 2: "jpeg_base64 ?w () = Inr (ascii ''/9j/4AAQSkZJRg=='')" by (simp add: example_world_simps)
  have 3: "requests_post ?w (classify_url (format_value ?w (JStr (ascii ''24.abc''))))
             classify_headers [(ascii ''image'', ascii ''/9j/4AAQSkZJRg=='')] = Inr classify_tshirt"
    by (simp add: example_world_simps)
  have 4: "status_code classify_tshirt = 200" by (simp add: classify_tshirt_def)
  have 5: "body_json classify_tshirt
             = Inr (JObj [(ascii ''result'',
                           JList [JObj [(ascii ''keyword'', JStr (ascii ''T-shirt''))]])])"
    by (simp add: classify_tshirt_def)
  have 6: "map_of [(ascii ''result'', JList [JObj [(ascii ''keyword'', JStr (ascii ''T-shirt''))]])]
             (ascii ''result'')
           = Some (JList (JObj [(ascii ''keyword'', JStr (ascii ''T-shirt''))] # []))"
    by simp
  have 7: "map_of [(ascii ''keyword'', JStr (ascii ''T-shirt''))] (ascii ''keyword'')
             = Some (JStr (ascii ''T-shirt''))"
    by simp
  from 1 4 5 classify_image_first_keyword[OF example_token_ok 1 2 3 4 5 6 7]
  show ?thesis by blast
qed



text \<open>
  The returned string is not the response body itself: on a 500 answer with the body
  \<open>Internal Server Error\<close> the result differs from that body.
\<close>

theorem classify_image_error_text_counterexample:
  "status_code classify_broken \<noteq> 200
   \<and> fst (classify_image (example_world token_ok classify_broken) () fresh_session)
       \<noteq> Inr (JStr (body_text classify_broken))"
proof -
  let ?w = "example_world token_ok classify_broken"
  have 1: "truthy (JStr (ascii ''24.abc''))" by (rule truthy_example_token)
  have 2: "jpeg_base64 ?w () = Inr (ascii ''/9j/4AAQSkZJRg=='')" by (simp add: example_world_simps)
  have 3: "requests_post ?w (classify_url (format_value ?w (JStr (ascii ''24.abc''))))
             classify_headers [(ascii ''image'', ascii ''/9j/4AAQSkZJRg=='')] = Inr classify_broken"
    by (simp add: example_world_simps)
  have 4: "status_code classify_broken \<noteq> 200" by (simp add: classify_broken_def)
  have "classify_image ?w () fresh_session
          = (Inr (JStr (api_failed_prefix @ body_text classify_broken)),
             snd (classify_image ?w () fresh_session))"
    using 4 by (simp add: classify_image_posted[OF example_token_ok 1 2 3] Let_def)
  then have "fst (classify_image ?w () fresh_session)
               = Inr (JStr (api_failed_prefix @ body_text classify_broken))"
    by (metis fst_conv)
  moreover have "api_failed_prefix @ body_text classify_broken \<noteq> body_text classify_broken"
    by (simp add: api_failed_prefix_def)
  ultimately show ?thesis using 4 by simp
qed

text \<open>
  C6, as the code has it. For every answer of the classification endpoint whose status
  code is not 200, \<open>classify_image\<close> returns the fixed prefix of line 73 followed by
  the raw response body.
\<close>

theorem classify_image_error_text:
  assumes "get_access_token w s = (Inr access_token, s1)" and "truthy access_token"
      and "jpeg_base64 w img = Inr img_base64"
      and "requests_post w (classify_url (format_value w access_token)) classify_headers
             [(ascii ''image'', img_base64)] = Inr response"
      and "status_code response \<noteq> 200"
  shows "fst (classify_image w img s) = Inr (JStr (api_failed_prefix @ body_text response))"
  using assms(5) by (simp add: classify_image_posted[OF assms(1-4)] Let_def)

theorem classify_image_error_text_witness:
  "status_code classify_broken \<noteq> 200
   \<and> fst (classify_image (example_world token_ok classify_broken) () fresh_session)
       = Inr (JStr (api_failed_prefix @ ascii ''Internal Server Error''))"
proof -
  let ?w = "example_world token_ok classify_broken"
  have 1: "truthy (JStr (ascii ''24.abc''))" by (rule truthy_example_token)
  have 2: "jpeg_base64 ?w () = Inr (ascii ''/9j/4AAQSkZJRg=='')" by (simp add: example_world_simps)
  have 3: "requests_post ?w (classify_url (format_value ?w (JStr (ascii ''24.abc''))))
             classify_headers [(ascii ''image'', ascii ''/9j/4AAQSkZJRg=='')] = Inr classify_broken"
    by (simp add: example_world_simps)
  have 4: "status_code classify_broken \<noteq> 200" by (simp add: classify_broken_def)
  have 5: "body_text classify_broken = ascii ''Internal Server Error''"
    by (simp add: classify_broken_def)
  from 4 5 classify_image_error_text[OF example_token_ok 1 2 3 4]
  show ?thesis by simp
qed

section \<open>Authentication failure and the recommendation flow\<close>

text \<open>
  With a token endpoint that answers 401, the token fetch returns \<open>None\<close>, and
  \<open>recommend_outfit_by_image\<close> still calls the text-generation model and returns its
  text: the flow is not aborted.
\<close>

theorem auth_failure_generates_counterexample:
  "fst (get_access_token (example_world token_denied classify_tshirt) fresh_session) = Inr JNull
   \<and> filter is_model_call
        (log (snd (recommend_outfit_by_image (example_world token_denied classify_tshirt) ()
                     [0x708E, 0x70ED] [0x65E5, 0x5E38] fresh_session)))
       = [ModelCall (image_prompt [0x708E, 0x70ED] [0x65E5, 0x5E38] auth_failed) 150 1]
   \<and> fst (recommend_outfit_by_image (example_world token_denied classify_tshirt) ()
             [0x708E, 0x70ED] [0x65E5, 0x5E38] fresh_session)
       = Inr (JStr (image_prompt [0x708E, 0x70ED] [0x65E5, 0x5E38] auth_failed @ ascii '' jeans''),
              JStr auth_failed)"
proof -
  let ?w = "example_world token_denied classify_tshirt"
  have cls: "classify_image ?w () fresh_session
               = (Inr (JStr auth_failed),
                  \<lparr>token_cache = Some (JNull, [StError token_error_message], 1000),
                   log = [HttpGet (token_url (ascii ''key'') (ascii ''secret'')),
                          StError token_error_message]\<rparr>)"
    using example_token_denied by (rule classify_image_no_token) simp
  have fmt: "format_value ?w (JStr auth_failed) = auth_failed"
    by (simp add: format_value_def)
  have gen: "generated_text (JList [JObj [(ascii ''generated_text'', JStr t)]]) = Inr (JStr t)" for t
    by (simp add: generated_text_def)
  show ?thesis
    by (simp add: example_token_denied
          recommend_after_classify[OF cls example_world_simps(7)] fmt gen Let_def)
qed

text \<open>
  C2, as the code has it. Whenever the token endpoint answers with a status other than
  200, the token fetch returns \<open>None\<close>, the error message is shown and no POST goes to
  the classification endpoint; but once the pipeline is loaded
  \<open>recommend_outfit_by_image\<close> makes one text-generation call, with the prompt of
  line 79 built from the string of line 53, and returns what that call yields together
  with that string.
\<close>

theorem auth_failure_flow_continues:
  assumes "cache_miss w s"
      and "requests_get w (token_url (API_KEY w) (SECRET_KEY w)) = Inr response"
      and "status_code response \<noteq> 200"
      and "pipeline w = Inr model"
  shows "fst (get_access_token w s) = Inr JNull
       \<and> log (snd (recommend_outfit_by_image w img weather occasion s))
           = log s @ [HttpGet (token_url (API_KEY w) (SECRET_KEY w)),
                      StError token_error_message,
                      ModelCall (image_prompt weather occasion auth_failed) 150 1]
       \<and> filter is_post (log (snd (recommend_outfit_by_image w img weather occasion s)))
           = filter is_post (log s)
       \<and> fst (recommend_outfit_by_image w img weather occasion s)
           = (case model (image_prompt weather occasion auth_failed) 150 1 of
                Inl e \<Rightarrow> Inl e
              | Inr response \<Rightarrow>
                  (case generated_text response of
                     Inl e \<Rightarrow> Inl e
                   | Inr generated \<Rightarrow> Inr (generated, JStr auth_failed)))"
proof -
  let ?s1 = "s\<lparr>token_cache := Some (JNull, [StError token_error_message], clock w),
               log := log s @ [HttpGet (token_url (API_KEY w) (SECRET_KEY w)),
                               StError token_error_message]\<rparr>"
  have tok: "get_access_token w s = (Inr JNull, ?s1)"
    using assms(1-3) by (rule get_access_token_denied)
  have cls: "classify_image w img s = (Inr (JStr auth_failed), ?s1)"
    using tok by (rule classify_image_no_token) simp
  have fmt: "format_value w (JStr auth_failed) = auth_failed"
    by (simp add: format_value_def)
  show ?thesis
    by (simp add: tok recommend_after_classify[OF cls assms(4)] fmt Let_def split: sum.splits)
qed

theorem auth_failure_flow_continues_witness:
  "cache_miss (example_world token_denied classify_tshirt) fresh_session
   \<and> status_code token_denied \<noteq> 200
   \<and> log (snd (recommend_outfit_by_image (example_world token_denied classify_tshirt) ()
                  [0x708E, 0x70ED] [0x65E5, 0x5E38] fresh_session))
       = [HttpGet (token_url (ascii ''key'') (ascii ''secret'')),
          StError token_error_message,
          ModelCall (image_prompt [0x708E, 0x70ED] [0x65E5, 0x5E38] auth_failed) 150 1]"
proof -
  let ?w = "example_world token_denied classify_tshirt"
  have 1: "cache_miss ?w fresh_session" by (rule fresh_miss)
  have 2: "requests_get ?w (token_url (API_KEY ?w) (SECRET_KEY ?w)) = Inr token_denied"
    by (simp add: example_world_simps)
  have 3: "status_code token_denied \<noteq> 200" by (simp add: token_denied_def)
  have 4: "log fresh_session = []" by (simp add: fresh_session_def)
  note 5 = example_world_simps(7)[of token_denied classify_tshirt]
  from auth_failure_flow_continues[OF 1 2 3 5, of "()" "[0x708E, 0x70ED]" "[0x65E5, 0x5E38]"] 1 3 4
  show ?thesis by (simp add: example_world_simps)
qed

section \<open>Composer: the claim\<close>




end
